theory Spec2Isabelle
  imports Complex_Main "HOL-Library.Word" "HOL-Library.Finite_Map"
begin

section \<open>Numbers of the program\<close>

text \<open>
  Amounts are \<^verbatim>\<open>decimal.Decimal\<close> values of the shopspring library: a big-integer
  mantissa with a power-of-ten exponent. \<^verbatim>\<open>Add\<close>, \<^verbatim>\<open>Sub\<close>, \<^verbatim>\<open>Mul\<close> and the
  comparisons are exact, so they are the operations of the reals here. \<^verbatim>\<open>Div\<close> is
  not exact: it is \<^verbatim>\<open>DivRound\<close> at \<^verbatim>\<open>DivisionPrecision = 16\<close>, the quotient rounded to
  a multiple of \<open>10\<^sup>-\<^sup>1\<^sup>6\<close>, a half rounded away from zero, and it panics on a zero
  divisor. \<^verbatim>\<open>decimal.NewFromFloat\<close> of the literals \<^verbatim>\<open>0.001\<close>, \<^verbatim>\<open>1.645\<close>, \<^verbatim>\<open>1.25\<close>
  and \<^verbatim>\<open>0.1\<close> gives the decimal with those digits.
\<close>

type_synonym Decimal = real

type_synonym int64 = "64 word"

type_synonym Time = int

text \<open>
  The panics of the decimal library the code can meet: \<^verbatim>\<open>Div\<close> by zero, and
  \<^verbatim>\<open>NewFromFloat\<close> of an infinite float64.
\<close>

datatype panic = DivisionByZero | InfiniteFloat

definition NewFromInt :: "int64 \<Rightarrow> Decimal" where
  "NewFromInt n = of_int (sint n)"

definition DivRound16 :: "real \<Rightarrow> Decimal" where
  "DivRound16 x = sgn x * of_int \<lfloor>\<bar>x\<bar> * 10 ^ 16 + 1 / 2\<rfloor> / 10 ^ 16"

text \<open>The value \<^verbatim>\<open>d.Div(d2)\<close> has when \<^verbatim>\<open>d2\<close> is not zero.\<close>

definition quot :: "Decimal \<Rightarrow> Decimal \<Rightarrow> Decimal" where
  "quot d d2 = DivRound16 (d / d2)"

definition Div :: "Decimal \<Rightarrow> Decimal \<Rightarrow> panic + Decimal" where
  "Div d d2 = (if d2 = 0 then Inl DivisionByZero else Inr (quot d d2))"

text \<open>
  \<^verbatim>\<open>decimal.NewFromFloat(math.Sqrt(v.InexactFloat64()))\<close>: the conversion of the decimal
  to float64, the float64 square root and the conversion back are the Go runtime's and
  the decimal library's, not the repository's. They are a parameter of the model,
  \<open>fsqrt\<close>: a function that gives, for a decimal, the decimal the three calls return (a
  rounded root), or the panic \<^verbatim>\<open>NewFromFloat\<close> raises when the float64 is infinite, as it
  is for a decimal beyond the float64 range. Every theorem below is proved for every such
  function.
\<close>

type_synonym FloatSqrt = "Decimal \<Rightarrow> panic + Decimal"

section \<open>Data model (internal/models/types.go)\<close>

type_synonym OrderType = string
type_synonym OrderSide = string
type_synonym OrderStatus = string

definition OrderTypeMarket :: OrderType where "OrderTypeMarket = ''market''"
definition OrderTypeLimit :: OrderType where "OrderTypeLimit = ''limit''"
definition OrderTypeStop :: OrderType where "OrderTypeStop = ''stop''"

definition OrderSideBuy :: OrderSide where "OrderSideBuy = ''buy''"
definition OrderSideSell :: OrderSide where "OrderSideSell = ''sell''"

definition OrderStatusPending :: OrderStatus where "OrderStatusPending = ''pending''"
definition OrderStatusFilled :: OrderStatus where "OrderStatusFilled = ''filled''"
definition OrderStatusCancelled :: OrderStatus where "OrderStatusCancelled = ''cancelled''"
definition OrderStatusRejected :: OrderStatus where "OrderStatusRejected = ''rejected''"

record RiskMetrics =
  VaR95 :: Decimal
  ExpectedShortfall :: Decimal
  SharpeRatio :: Decimal
  MaxDrawdown :: Decimal
  Volatility :: Decimal
  Beta :: Decimal

text \<open>The zero value \<^verbatim>\<open>models.RiskMetrics{}\<close>.\<close>

definition RiskMetrics_zero :: RiskMetrics where
  "RiskMetrics_zero =
     \<lparr>VaR95 = 0, ExpectedShortfall = 0, SharpeRatio = 0, MaxDrawdown = 0,
      Volatility = 0, Beta = 0\<rparr>"

record Trade =
  ID :: string
  OrderID :: string
  Symbol :: string
  Side :: OrderSide
  Quantity :: int64
  Price :: Decimal
  Commission :: Decimal
  Timestamp :: Time
  StrategyID :: string
  RiskMetrics :: RiskMetrics

record Order =
  ID :: string
  Symbol :: string
  Side :: OrderSide
  Type :: OrderType
  Quantity :: int64
  Price :: Decimal
  StopPrice :: Decimal
  Status :: OrderStatus
  Timestamp :: Time
  StrategyID :: string
  RiskMetrics :: RiskMetrics

record Position =
  Symbol :: string
  Quantity :: int64
  AveragePrice :: Decimal
  CurrentPrice :: Decimal
  UnrealizedPnL :: Decimal
  RealizedPnL :: Decimal
  MarketValue :: Decimal
  RiskMetrics :: RiskMetrics
  LastUpdated :: Time

record PortfolioRiskMetrics =
  TotalVaR95 :: Decimal
  TotalES :: Decimal
  PortfolioBeta :: Decimal
  Correlation :: Decimal
  Diversification :: Decimal

definition PortfolioRiskMetrics_zero :: PortfolioRiskMetrics where
  "PortfolioRiskMetrics_zero =
     \<lparr>TotalVaR95 = 0, TotalES = 0, PortfolioBeta = 0, Correlation = 0, Diversification = 0\<rparr>"

text \<open>
  \<^verbatim>\<open>Positions\<close> is a Go map from symbol to a pointer to the position. Every pointer
  is created by \<^verbatim>\<open>updatePosition\<close> and stored under one key only, so the map holds
  the positions themselves here.
\<close>

record Portfolio =
  ID :: string
  Cash :: Decimal
  Positions :: "(string, Position) fmap"
  TotalValue :: Decimal
  UnrealizedPnL :: Decimal
  RealizedPnL :: Decimal
  TotalRisk :: Decimal
  RiskMetrics :: PortfolioRiskMetrics
  TradeHistory :: "Trade list"
  OrderHistory :: "Order list"
  LastRebalanced :: Time
  CreatedAt :: Time
  UpdatedAt :: Time

record MarketData =
  Symbol :: string
  Price :: Decimal
  Volume :: int64
  High :: Decimal
  Low :: Decimal
  Open :: Decimal
  Close :: Decimal
  Timestamp :: Time

record StrategyConfig =
  ID :: string
  Name :: string
  MaxPositionSize :: Decimal
  MaxPortfolioRisk :: Decimal
  MaxDrawdown :: Decimal
  StopLossPercent :: Decimal
  TakeProfitPercent :: Decimal
  TrailingStopPercent :: Decimal
  RebalanceThreshold :: Decimal
  MaxOrdersPerDay :: int
  MinOrderSize :: Decimal
  MaxOrderSize :: Decimal
  CommissionRate :: Decimal
  SlippageTolerance :: Decimal
  RiskFreeRate :: Decimal
  MarketDataWindow :: int
  TechnicalIndicators :: "string list"
  Enabled :: bool
  CreatedAt :: Time
  UpdatedAt :: Time

record AlgorithmResult =
  StrategyID :: string
  Symbol :: string
  Action :: string
  Quantity :: int64
  Price :: Decimal
  Confidence :: Decimal
  Signal :: string
  Timestamp :: Time
  RiskScore :: Decimal
  ExpectedReturn :: Decimal

section \<open>Risk and validation (internal/strategies)\<close>

text \<open>The error values of errors.go.\<close>

datatype error =
    ErrInvalidQuantity
  | ErrOrderTooSmall
  | ErrOrderTooLarge
  | ErrInsufficientFunds
  | ErrInsufficientPosition
  | ErrPositionTooLarge
  | ErrPortfolioRiskExceeded
  | ErrStrategyDisabled
  | ErrInvalidMarketData
  | ErrInvalidPortfolio
  | ErrInvalidConfig
  | ErrMaxDrawdownExceeded
  | ErrMaxOrdersPerDayReached

text \<open>A call ends without a value by returning an error or by a panic.\<close>

datatype fault = Err error | Panic panic

text \<open>
  \<^verbatim>\<open>BaseStrategy.ValidateOrder\<close>; \<open>None\<close> is the nil error. The receiver is its
  configuration.
\<close>

definition ValidateOrder :: "StrategyConfig \<Rightarrow> Order \<Rightarrow> Portfolio \<Rightarrow> error option" where
  "ValidateOrder config order portfolio =
     (if Order.Quantity order \<le>s 0 then Some ErrInvalidQuantity
      else
        let orderValue = Order.Price order * NewFromInt (Order.Quantity order) in
        if orderValue < MinOrderSize config then Some ErrOrderTooSmall
        else if orderValue > MaxOrderSize config then Some ErrOrderTooLarge
        else if Order.Side order = OrderSideBuy then
          (if Cash portfolio < orderValue then Some ErrInsufficientFunds else None)
        else
          (case fmlookup (Positions portfolio) (Order.Symbol order) of
             None \<Rightarrow> Some ErrInsufficientPosition
           | Some position \<Rightarrow>
               if Position.Quantity position <s Order.Quantity order
               then Some ErrInsufficientPosition
               else None))"

text \<open>
  The call as a transformer of the two objects it receives by pointer. The body of
  \<^verbatim>\<open>ValidateOrder\<close> has no assignment through either pointer, so they are handed
  back as they came.
\<close>

definition ValidateOrder_call ::
  "StrategyConfig \<Rightarrow> Order \<times> Portfolio \<Rightarrow> error option \<times> Order \<times> Portfolio" where
  "ValidateOrder_call config objs =
     (ValidateOrder config (fst objs) (snd objs), objs)"

text \<open>
  \<^verbatim>\<open>calculateVolatility\<close>. The loop over \<^verbatim>\<open>i := 1 .. len - 1\<close> that collects
  \<^verbatim>\<open>returns\<close> comes first.
\<close>

definition collectReturns :: "string \<Rightarrow> Trade list \<Rightarrow> Decimal list" where
  "collectReturns symbol history =
     concat (map (\<lambda>i.
        if Trade.Symbol (history ! i) = symbol then
          (let prevPrice = Trade.Price (history ! (i - 1));
               currPrice = Trade.Price (history ! i)
           in if prevPrice \<noteq> 0 then [quot (currPrice - prevPrice) prevPrice] else [])
        else []) [1 ..< length history])"

definition calculateVolatility :: "FloatSqrt \<Rightarrow> string \<Rightarrow> Portfolio \<Rightarrow> panic + Decimal" where
  "calculateVolatility fsqrt symbol portfolio =
     (if length (TradeHistory portfolio) < 2 then Inr 0
      else
        let returns = collectReturns symbol (TradeHistory portfolio) in
        if length returns = 0 then Inr 0
        else
          let mean = quot (sum_list returns) (of_nat (length returns));
              variance = quot (\<Sum>ret\<leftarrow>returns. (ret - mean) * (ret - mean))
                           (of_nat (length returns))
          in if variance > 0 then fsqrt variance else Inr 0)"

definition calculateBeta :: "string \<Rightarrow> Portfolio \<Rightarrow> Decimal" where
  "calculateBeta symbol portfolio = 1"

definition calculateVaR :: "Decimal \<Rightarrow> Decimal \<Rightarrow> Decimal" where
  "calculateVaR orderValue volatility = orderValue * volatility * 1.645"

definition calculateExpectedShortfall :: "Decimal \<Rightarrow> Decimal \<Rightarrow> Decimal" where
  "calculateExpectedShortfall var95 volatility = var95 * 1.25"

definition calculateSharpeRatio :: "StrategyConfig \<Rightarrow> Decimal \<Rightarrow> Decimal \<Rightarrow> Decimal" where
  "calculateSharpeRatio config orderValue volatility =
     (if volatility = 0 then 0
      else quot (orderValue - RiskFreeRate config) volatility)"

text \<open>
  \<^verbatim>\<open>calculateMaxDrawdown\<close>: the \<^verbatim>\<open>range\<close> loop carries \<^verbatim>\<open>peak\<close> and \<^verbatim>\<open>maxDrawdown\<close>;
  its division by \<^verbatim>\<open>peak\<close> is not guarded.
\<close>

fun drawdownLoop :: "Trade list \<Rightarrow> Decimal \<Rightarrow> Decimal \<Rightarrow> panic + Decimal" where
  "drawdownLoop [] peak maxDrawdown = Inr maxDrawdown"
| "drawdownLoop (trade # rest) peak maxDrawdown =
     (let peak' = (if Trade.Price trade > peak then Trade.Price trade else peak) in
      case Div (peak' - Trade.Price trade) peak' of
        Inl p \<Rightarrow> Inl p
      | Inr drawdown \<Rightarrow>
          drawdownLoop rest peak'
            (if drawdown > maxDrawdown then drawdown else maxDrawdown))"

definition calculateMaxDrawdown :: "Portfolio \<Rightarrow> panic + Decimal" where
  "calculateMaxDrawdown portfolio =
     (case TradeHistory portfolio of
        [] \<Rightarrow> Inr 0
      | first # _ \<Rightarrow> drawdownLoop (TradeHistory portfolio) (Trade.Price first) 0)"

text \<open>
  \<^verbatim>\<open>BaseStrategy.CalculateRisk\<close>. The volatility is computed first, the max drawdown
  last; a panic of either ends the call.
\<close>

definition CalculateRisk ::
  "FloatSqrt \<Rightarrow> StrategyConfig \<Rightarrow> Order \<Rightarrow> Portfolio \<Rightarrow> fault + RiskMetrics" where
  "CalculateRisk fsqrt config order portfolio =
     (let orderValue = Order.Price order * NewFromInt (Order.Quantity order);
          portfolioValue = TotalValue portfolio
      in
      if portfolioValue = 0 then Inr RiskMetrics_zero
      else
        let positionRisk = quot orderValue portfolioValue in
        if positionRisk > MaxPositionSize config then Inl (Err ErrPositionTooLarge)
        else
          let totalRisk = TotalRisk portfolio + positionRisk in
          if totalRisk > MaxPortfolioRisk config then Inl (Err ErrPortfolioRiskExceeded)
          else
            case calculateVolatility fsqrt (Order.Symbol order) portfolio of
              Inl p \<Rightarrow> Inl (Panic p)
            | Inr volatility \<Rightarrow>
                (let beta = calculateBeta (Order.Symbol order) portfolio;
                     var95 = calculateVaR orderValue volatility;
                     expectedShortfall = calculateExpectedShortfall var95 volatility;
                     sharpeRatio = calculateSharpeRatio config orderValue volatility
                 in
                 case calculateMaxDrawdown portfolio of
                   Inl p \<Rightarrow> Inl (Panic p)
                 | Inr maxDrawdown \<Rightarrow>
                     Inr \<lparr>VaR95 = var95, ExpectedShortfall = expectedShortfall,
                          SharpeRatio = sharpeRatio, MaxDrawdown = maxDrawdown,
                          Volatility = volatility, Beta = beta\<rparr>))"

section \<open>The trading engine\<close>

text \<open>
  The state of \<^verbatim>\<open>TradingEngine\<close>. Every strategy of the repository embeds
  \<^verbatim>\<open>BaseStrategy\<close> and takes \<^verbatim>\<open>ValidateOrder\<close> and \<^verbatim>\<open>CalculateRisk\<close> from it, so a
  registered strategy is its configuration. The two channels are the lists of what
  they hold, oldest first; a send appends. A send on a full channel (1000 elements)
  waits for a receiver; the wait is not modelled. The logger, the mutex and the stop
  channel have no part in what follows. \<^verbatim>\<open>time.Now()\<close> and the identifiers made from it are
  arguments of the functions that read the clock.
\<close>

record TradingEngine =
  portfolio :: Portfolio
  strategies :: "(string, StrategyConfig) fmap"
  marketData :: "(string, MarketData) fmap"
  orderQueue :: "Order list"
  tradeQueue :: "Trade list"
  running :: bool

definition NewTradingEngine :: "Decimal \<Rightarrow> string \<Rightarrow> Time \<Rightarrow> TradingEngine" where
  "NewTradingEngine initialCash portfolioID now =
     \<lparr>portfolio =
        \<lparr>Portfolio.ID = portfolioID, Cash = initialCash, Positions = fmempty,
         TotalValue = initialCash, UnrealizedPnL = 0, RealizedPnL = 0, TotalRisk = 0,
         RiskMetrics = PortfolioRiskMetrics_zero, TradeHistory = [], OrderHistory = [],
         LastRebalanced = now, CreatedAt = now, UpdatedAt = now\<rparr>,
      strategies = fmempty, marketData = fmempty, orderQueue = [], tradeQueue = [],
      running = False\<rparr>"

definition AddStrategy :: "TradingEngine \<Rightarrow> StrategyConfig \<Rightarrow> TradingEngine" where
  "AddStrategy e strategy =
     e\<lparr>strategies := fmupd (StrategyConfig.ID strategy) strategy (strategies e)\<rparr>"

definition RemoveStrategy :: "TradingEngine \<Rightarrow> string \<Rightarrow> TradingEngine" where
  "RemoveStrategy e strategyID = e\<lparr>strategies := fmdrop strategyID (strategies e)\<rparr>"

definition UpdateMarketData :: "TradingEngine \<Rightarrow> string \<Rightarrow> MarketData \<Rightarrow> TradingEngine" where
  "UpdateMarketData e symbol data = e\<lparr>marketData := fmupd symbol data (marketData e)\<rparr>"

text \<open>
  \<^verbatim>\<open>updatePosition\<close>. The position read from the map, or the fresh one stored under
  the symbol, is changed through its pointer; after \<^verbatim>\<open>delete\<close> the last two
  assignments reach an object the map no longer holds.
\<close>

definition updatePosition ::
  "TradingEngine \<Rightarrow> string \<Rightarrow> int64 \<Rightarrow> Decimal \<Rightarrow> Time \<Rightarrow> panic + TradingEngine" where
  "updatePosition e symbol quantity price now =
     (let position =
            (case fmlookup (Positions (portfolio e)) symbol of
               Some position \<Rightarrow> position
             | None \<Rightarrow>
                 \<lparr>Position.Symbol = symbol, Quantity = 0, AveragePrice = 0,
                  CurrentPrice = price, UnrealizedPnL = 0, RealizedPnL = 0,
                  MarketValue = 0, RiskMetrics = RiskMetrics_zero, LastUpdated = now\<rparr>);
          store = (\<lambda>positions. e\<lparr>portfolio := (portfolio e)\<lparr>Positions := positions\<rparr>\<rparr>)
      in
      if 0 <s quantity then
        (let totalCost = AveragePrice position * NewFromInt (Position.Quantity position)
                           + price * NewFromInt quantity;
             totalQuantity = Position.Quantity position + quantity
         in case Div totalCost (NewFromInt totalQuantity) of
              Inl p \<Rightarrow> Inl p
            | Inr averagePrice \<Rightarrow>
                Inr (store (fmupd symbol
                  (position\<lparr>AveragePrice := averagePrice, Position.Quantity := totalQuantity,
                            CurrentPrice := price, LastUpdated := now\<rparr>)
                  (Positions (portfolio e)))))
      else
        (let position' = position\<lparr>Position.Quantity := Position.Quantity position + quantity\<rparr>
         in if Position.Quantity position' \<le>s 0
            then Inr (store (fmdrop symbol (Positions (portfolio e))))
            else Inr (store (fmupd symbol
                   (position'\<lparr>CurrentPrice := price, LastUpdated := now\<rparr>)
                   (Positions (portfolio e))))))"

text \<open>\<^verbatim>\<open>executeOrder\<close>; \<^verbatim>\<open>tradeID\<close> is what \<^verbatim>\<open>generateTradeID()\<close> returned.\<close>

definition executeOrder ::
  "TradingEngine \<Rightarrow> Order \<Rightarrow> string \<Rightarrow> Time \<Rightarrow> panic + TradingEngine" where
  "executeOrder e order tradeID now =
     (let orderValue = Order.Price order * NewFromInt (Order.Quantity order);
          commission = orderValue * 0.001;
          trade = \<lparr>Trade.ID = tradeID, OrderID = Order.ID order,
                   Symbol = Order.Symbol order, Side = Order.Side order,
                   Quantity = Order.Quantity order, Price = Order.Price order,
                   Commission = commission, Timestamp = now,
                   StrategyID = Order.StrategyID order,
                   RiskMetrics = Order.RiskMetrics order\<rparr>;
          setCash = (\<lambda>cash. e\<lparr>portfolio := (portfolio e)\<lparr>Cash := cash\<rparr>\<rparr>)
      in
      case
        (if Order.Side order = OrderSideBuy then
           updatePosition (setCash (Cash (portfolio e) - orderValue - commission))
             (Order.Symbol order) (Order.Quantity order) (Order.Price order) now
         else
           updatePosition (setCash (Cash (portfolio e) + orderValue - commission))
             (Order.Symbol order) (- Order.Quantity order) (Order.Price order) now)
      of
        Inl p \<Rightarrow> Inl p
      | Inr e' \<Rightarrow> Inr (e'\<lparr>tradeQueue := tradeQueue e' @ [trade]\<rparr>))"

text \<open>
  \<^verbatim>\<open>processOrder\<close>. The order is changed through its pointer, so it is returned
  beside the engine.
\<close>

definition processOrder ::
  "FloatSqrt \<Rightarrow> TradingEngine \<Rightarrow> Order \<Rightarrow> string \<Rightarrow> Time \<Rightarrow> panic + Order \<times> TradingEngine"
  where
  "processOrder fsqrt e order tradeID now =
     (case fmlookup (strategies e) (Order.StrategyID order) of
        None \<Rightarrow> Inr (order\<lparr>Status := OrderStatusRejected\<rparr>, e)
      | Some strategy \<Rightarrow>
          (case ValidateOrder strategy order (portfolio e) of
             Some err \<Rightarrow> Inr (order\<lparr>Status := OrderStatusRejected\<rparr>, e)
           | None \<Rightarrow>
               (case CalculateRisk fsqrt strategy order (portfolio e) of
                  Inl (Err err) \<Rightarrow> Inr (order\<lparr>Status := OrderStatusRejected\<rparr>, e)
                | Inl (Panic p) \<Rightarrow> Inl p
                | Inr riskMetrics \<Rightarrow>
                    (let order' = order\<lparr>Order.RiskMetrics := riskMetrics,
                                        Status := OrderStatusFilled\<rparr>
                     in case executeOrder e order' tradeID now of
                          Inl p \<Rightarrow> Inl p
                        | Inr e' \<Rightarrow>
                            Inr (order',
                                 e'\<lparr>portfolio := (portfolio e')
                                      \<lparr>OrderHistory := OrderHistory (portfolio e') @ [order']\<rparr>\<rparr>)))))"

text \<open>\<^verbatim>\<open>processTrade\<close>.\<close>

definition processTrade :: "TradingEngine \<Rightarrow> Trade \<Rightarrow> TradingEngine" where
  "processTrade e trade =
     e\<lparr>portfolio := (portfolio e)\<lparr>TradeHistory := TradeHistory (portfolio e) @ [trade]\<rparr>\<rparr>"

text \<open>
  \<^verbatim>\<open>updatePortfolio\<close>. The \<^verbatim>\<open>range\<close> loop visits each position once, in no fixed
  order; what it adds up does not depend on the order.
\<close>

definition revalue :: "(string, MarketData) fmap \<Rightarrow> string \<Rightarrow> Position \<Rightarrow> Position" where
  "revalue data symbol position =
     (case fmlookup data symbol of
        None \<Rightarrow> position
      | Some md \<Rightarrow>
          position\<lparr>CurrentPrice := MarketData.Price md,
                   MarketValue := MarketData.Price md * NewFromInt (Position.Quantity position),
                   Position.UnrealizedPnL := (MarketData.Price md - AveragePrice position)
                                      * NewFromInt (Position.Quantity position)\<rparr>)"

definition sumOver :: "string fset \<Rightarrow> (string, Position) fmap \<Rightarrow> (Position \<Rightarrow> Decimal) \<Rightarrow> Decimal" where
  "sumOver symbols positions field =
     (\<Sum>symbol \<in> fset symbols.
        case fmlookup positions symbol of Some position \<Rightarrow> field position | None \<Rightarrow> 0)"

definition updatePortfolio :: "TradingEngine \<Rightarrow> Time \<Rightarrow> TradingEngine" where
  "updatePortfolio e now =
     (let positions = fmmap_keys (revalue (marketData e)) (Positions (portfolio e));
          priced = fmdom positions |\<inter>| fmdom (marketData e);
          totalValue = Cash (portfolio e) + sumOver priced positions MarketValue;
          unrealizedPnL = sumOver priced positions Position.UnrealizedPnL
      in e\<lparr>portfolio := (portfolio e)
             \<lparr>Positions := positions, TotalValue := totalValue,
              Portfolio.UnrealizedPnL := unrealizedPnL, Portfolio.UpdatedAt := now\<rparr>\<rparr>)"

text \<open>
  \<^verbatim>\<open>manageRisk\<close>. It changes nothing; it returns the symbols it warns about, unless
  some division panics. Positions with a quantity of 0 or less are skipped.
\<close>

definition manageRisk :: "TradingEngine \<Rightarrow> panic + string fset" where
  "manageRisk e =
     (let positions = Positions (portfolio e);
          held = ffilter (\<lambda>symbol. case fmlookup positions symbol of
                            Some position \<Rightarrow> 0 <s Position.Quantity position
                          | None \<Rightarrow> False) (fmdom positions)
      in
      if \<exists>symbol \<in> fset held.
           (case fmlookup positions symbol of
              Some position \<Rightarrow> MarketValue position = 0 | None \<Rightarrow> False)
      then Inl DivisionByZero
      else Inr (ffilter (\<lambda>symbol. case fmlookup positions symbol of
                   Some position \<Rightarrow>
                     \<bar>quot (Position.UnrealizedPnL position) (MarketValue position)\<bar> > 0.1
                 | None \<Rightarrow> False) held))"

text \<open>
  \<^verbatim>\<open>createOrderFromResult\<close>; \<^verbatim>\<open>orderID\<close> is what \<^verbatim>\<open>generateOrderID()\<close> returned. The
  fields the literal leaves out have their zero values.
\<close>

definition createOrderFromResult ::
  "TradingEngine \<Rightarrow> AlgorithmResult \<Rightarrow> string \<Rightarrow> Time \<Rightarrow> TradingEngine" where
  "createOrderFromResult e result orderID now =
     (let side = (if Action result = ''buy'' then OrderSideBuy else OrderSideSell);
          order = \<lparr>Order.ID = orderID, Symbol = AlgorithmResult.Symbol result, Side = side,
                   Type = OrderTypeMarket, Quantity = AlgorithmResult.Quantity result,
                   Price = AlgorithmResult.Price result, StopPrice = 0,
                   Status = OrderStatusPending, Timestamp = now,
                   StrategyID = AlgorithmResult.StrategyID result,
                   RiskMetrics = RiskMetrics_zero\<rparr>
      in e\<lparr>orderQueue := orderQueue e @ [order]\<rparr>)"

text \<open>
  The states the engine can be in, for a given \<open>fsqrt\<close>: it is made by
  \<^verbatim>\<open>NewTradingEngine\<close>, and each
  step is one call of its control surface or one turn of one of its stages under the
  lock. The order and trade stages take the oldest element of their queue.
  \<^verbatim>\<open>manageRisk\<close> changes nothing and has no step.
\<close>

inductive reachable :: "FloatSqrt \<Rightarrow> TradingEngine \<Rightarrow> bool" for fsqrt :: FloatSqrt where
  created: "reachable fsqrt (NewTradingEngine initialCash portfolioID now)"
| added: "reachable fsqrt e \<Longrightarrow> reachable fsqrt (AddStrategy e strategy)"
| removed: "reachable fsqrt e \<Longrightarrow> reachable fsqrt (RemoveStrategy e strategyID)"
| tick: "reachable fsqrt e \<Longrightarrow> reachable fsqrt (UpdateMarketData e symbol data)"
| started: "reachable fsqrt e \<Longrightarrow> reachable fsqrt (e\<lparr>running := True\<rparr>)"
| stopped: "reachable fsqrt e \<Longrightarrow> reachable fsqrt (e\<lparr>running := False\<rparr>)"
| submitted: "reachable fsqrt e \<Longrightarrow>
     reachable fsqrt (createOrderFromResult e result orderID now)"
| intake: "reachable fsqrt e \<Longrightarrow> orderQueue e = order # rest \<Longrightarrow>
     processOrder fsqrt (e\<lparr>orderQueue := rest\<rparr>) order tradeID now = Inr (order', e') \<Longrightarrow>
     reachable fsqrt e'"
| settled: "reachable fsqrt e \<Longrightarrow> tradeQueue e = trade # rest \<Longrightarrow>
     reachable fsqrt (processTrade (e\<lparr>tradeQueue := rest\<rparr>) trade)"
| valued: "reachable fsqrt e \<Longrightarrow> reachable fsqrt (updatePortfolio e now)"

section \<open>Terms of the specification\<close>

text \<open>Notional: price times quantity of an order.\<close>

definition notional :: "Order \<Rightarrow> Decimal" where
  "notional order = Order.Price order * of_int (sint (Order.Quantity order))"

text \<open>
  What a portfolio holds of a symbol and at which average entry price; an absent position
  counts as quantity 0 at average 0.
\<close>

definition heldQuantity :: "Portfolio \<Rightarrow> string \<Rightarrow> int" where
  "heldQuantity p symbol =
     (case fmlookup (Positions p) symbol of
        None \<Rightarrow> 0 | Some position \<Rightarrow> sint (Position.Quantity position))"

definition heldAverage :: "Portfolio \<Rightarrow> string \<Rightarrow> Decimal" where
  "heldAverage p symbol =
     (case fmlookup (Positions p) symbol of
        None \<Rightarrow> 0 | Some position \<Rightarrow> AveragePrice position)"



text \<open>
  The volatility of a symbol as the specification words it: the population standard
  deviation of the consecutive percentage returns of the symbol's own price series, the
  square root being the real one. \<^verbatim>\<open>getTradesForSymbol\<close> is the function of the
  moving-average strategy that selects that series.
\<close>

definition getTradesForSymbol :: "string \<Rightarrow> Trade list \<Rightarrow> Trade list" where
  "getTradesForSymbol symbol trades = filter (\<lambda>trade. Trade.Symbol trade = symbol) trades"

definition consecutiveReturns :: "Decimal list \<Rightarrow> Decimal list" where
  "consecutiveReturns prices =
     concat (map (\<lambda>i. if prices ! (i - 1) \<noteq> 0
                       then [quot (prices ! i - prices ! (i - 1)) (prices ! (i - 1))]
                       else []) [1 ..< length prices])"

definition populationDeviation :: "Decimal list \<Rightarrow> Decimal" where
  "populationDeviation xs =
     (if xs = [] then 0
      else let mean = quot (sum_list xs) (of_nat (length xs))
           in sqrt (quot (\<Sum>x\<leftarrow>xs. (x - mean) * (x - mean)) (of_nat (length xs))))"

definition ownSeriesVolatility :: "string \<Rightarrow> Portfolio \<Rightarrow> Decimal" where
  "ownSeriesVolatility symbol p =
     populationDeviation
       (consecutiveReturns (map Trade.Price (getTradesForSymbol symbol (TradeHistory p))))"

section \<open>Test data\<close>

text \<open>The configuration and the portfolio of \<^verbatim>\<open>TestMovingAverageStrategy_ValidateOrder\<close>.\<close>

definition zeroConfig :: StrategyConfig where
  "zeroConfig =
     \<lparr>StrategyConfig.ID = [], Name = [], MaxPositionSize = 0, MaxPortfolioRisk = 0,
      MaxDrawdown = 0, StopLossPercent = 0, TakeProfitPercent = 0,
      TrailingStopPercent = 0, RebalanceThreshold = 0, MaxOrdersPerDay = 0,
      MinOrderSize = 0, MaxOrderSize = 0, CommissionRate = 0, SlippageTolerance = 0,
      RiskFreeRate = 0, MarketDataWindow = 0, TechnicalIndicators = [],
      Enabled = False, CreatedAt = 0, UpdatedAt = 0\<rparr>"

definition testConfig :: StrategyConfig where
  "testConfig =
     zeroConfig\<lparr>StrategyConfig.ID := ''test_ma'', Name := ''Test Moving Average'',
                Enabled := True, MinOrderSize := 100, MaxOrderSize := 10000\<rparr>"

definition createTestPortfolio :: Portfolio where
  "createTestPortfolio =
     \<lparr>Portfolio.ID = ''test_portfolio'', Cash = 100000, Positions = fmempty,
      TotalValue = 100000, UnrealizedPnL = 0, RealizedPnL = 0, TotalRisk = 0,
      RiskMetrics = PortfolioRiskMetrics_zero, TradeHistory = [], OrderHistory = [],
      LastRebalanced = 0, CreatedAt = 0, UpdatedAt = 0\<rparr>"

definition testOrder :: "OrderSide \<Rightarrow> int64 \<Rightarrow> Decimal \<Rightarrow> Order" where
  "testOrder side quantity price =
     \<lparr>Order.ID = ''ORD-1'', Symbol = ''AAPL'', Side = side, Type = OrderTypeMarket,
      Quantity = quantity, Price = price, StopPrice = 0, Status = OrderStatusPending,
      Timestamp = 0, StrategyID = ''ma_crossover_001'', RiskMetrics = RiskMetrics_zero\<rparr>"

text \<open>The configuration \<^verbatim>\<open>setupStrategies\<close> of main.go registers.\<close>

definition mainConfig :: StrategyConfig where
  "mainConfig =
     \<lparr>StrategyConfig.ID = ''ma_crossover_001'', Name = ''Moving Average Crossover'',
      MaxPositionSize = 0.2, MaxPortfolioRisk = 0.15, MaxDrawdown = 0.1,
      StopLossPercent = 0.05, TakeProfitPercent = 0.1, TrailingStopPercent = 0.03,
      RebalanceThreshold = 0.05, MaxOrdersPerDay = 50, MinOrderSize = 1000,
      MaxOrderSize = 10000, CommissionRate = 0.001, SlippageTolerance = 0.002,
      RiskFreeRate = 0.02, MarketDataWindow = 30,
      TechnicalIndicators = [''SMA'', ''EMA'', ''RSI''], Enabled = True,
      CreatedAt = 0, UpdatedAt = 0\<rparr>"

definition mainEngine :: "Decimal \<Rightarrow> TradingEngine" where
  "mainEngine initialCash = AddStrategy (NewTradingEngine initialCash ''PORT-0'' 0) mainConfig"

definition testTrade :: "string \<Rightarrow> Decimal \<Rightarrow> Trade" where
  "testTrade symbol price =
     \<lparr>Trade.ID = ''TRD-0'', OrderID = ''ORD-0'', Symbol = symbol, Side = OrderSideBuy,
      Quantity = 1, Price = price, Commission = 0, Timestamp = 0,
      StrategyID = ''ma_crossover_001'', RiskMetrics = RiskMetrics_zero\<rparr>"


text \<open>
  The configuration, the portfolio and the trade history of
  \<^verbatim>\<open>TestMovingAverageStrategy_CalculateRisk\<close>.
\<close>

definition riskConfig :: StrategyConfig where
  "riskConfig =
     zeroConfig\<lparr>StrategyConfig.ID := ''test_ma'', Name := ''Test Moving Average'',
                Enabled := True, MaxPositionSize := 0.2, MaxPortfolioRisk := 0.15\<rparr>"

definition createTestPortfolioWithHistory :: Portfolio where
  "createTestPortfolioWithHistory =
     createTestPortfolio
       \<lparr>TradeHistory := [testTrade ''AAPL'' 150, testTrade ''AAPL'' 152, testTrade ''AAPL'' 155]\<rparr>"

text \<open>
  A portfolio worth 3 and a position limit one unit of the 17th decimal place above
  two thirds rounded down at 16 places.
\<close>

definition thirdsPortfolio :: Portfolio where
  "thirdsPortfolio = createTestPortfolio\<lparr>Cash := 3, TotalValue := 3\<rparr>"

definition thirdsConfig :: StrategyConfig where
  "thirdsConfig = riskConfig\<lparr>MaxPositionSize := 66666666666666667 / 10 ^ 17\<rparr>"


text \<open>An engine that holds one position, in AAPL, beside the strategy of main.go.\<close>

definition aaplPosition :: "int64 \<Rightarrow> Decimal \<Rightarrow> Position" where
  "aaplPosition quantity price =
     \<lparr>Position.Symbol = ''AAPL'', Quantity = quantity, AveragePrice = price,
      CurrentPrice = price, UnrealizedPnL = 0, RealizedPnL = 0, MarketValue = 0,
      RiskMetrics = RiskMetrics_zero, LastUpdated = 0\<rparr>"

definition holdingEngine :: "Decimal \<Rightarrow> int64 \<Rightarrow> Decimal \<Rightarrow> TradingEngine" where
  "holdingEngine cash quantity price =
     (mainEngine cash)
       \<lparr>portfolio := (portfolio (mainEngine cash))
          \<lparr>Positions := fmupd ''AAPL'' (aaplPosition quantity price) fmempty\<rparr>\<rparr>"

text \<open>
  The scenario of the specification: 100000 in cash, the strategy of main.go with its
  largest order raised to 20000, a signal to buy 100 AAPL at 150, the state
  \<open>firstFill\<close> after the fill, and a tick that prices AAPL at 160.
\<close>

definition scenarioEngine :: TradingEngine where
  "scenarioEngine =
     AddStrategy (NewTradingEngine 100000 ''PORT-0'' 0) (mainConfig\<lparr>MaxOrderSize := 20000\<rparr>)"

definition aaplSignal :: AlgorithmResult where
  "aaplSignal =
     \<lparr>AlgorithmResult.StrategyID = ''ma_crossover_001'', Symbol = ''AAPL'', Action = ''buy'',
      Quantity = 100, Price = 150, Confidence = 1, Signal = ''strong_buy'', Timestamp = 0,
      RiskScore = 0, ExpectedReturn = 0\<rparr>"

definition filledOrder :: Order where
  "filledOrder =
     (testOrder OrderSideBuy 100 150)
       \<lparr>Order.RiskMetrics := RiskMetrics_zero\<lparr>Beta := 1\<rparr>, Status := OrderStatusFilled\<rparr>"

definition firstTrade :: Trade where
  "firstTrade =
     \<lparr>Trade.ID = ''TRD-1'', OrderID = ''ORD-1'', Symbol = ''AAPL'', Side = OrderSideBuy,
      Quantity = 100, Price = 150, Commission = 15, Timestamp = 0,
      StrategyID = ''ma_crossover_001'', RiskMetrics = RiskMetrics_zero\<lparr>Beta := 1\<rparr>\<rparr>"

definition firstFill :: TradingEngine where
  "firstFill =
     scenarioEngine
       \<lparr>portfolio := (portfolio scenarioEngine)
          \<lparr>Cash := 84985, Positions := fmupd ''AAPL'' (aaplPosition 100 150) fmempty,
           OrderHistory := [filledOrder]\<rparr>,
        tradeQueue := [firstTrade]\<rparr>"


text \<open>An engine whose strategy lets one order take the whole portfolio.\<close>

definition allInConfig :: StrategyConfig where
  "allInConfig = mainConfig\<lparr>MaxPositionSize := 1, MaxPortfolioRisk := 1\<rparr>"

definition allInEngine :: TradingEngine where
  "allInEngine = AddStrategy (NewTradingEngine 10000 ''PORT-0'' 0) allInConfig"

text \<open>A history in which trades of two symbols alternate.\<close>

definition mixedPortfolio :: Portfolio where
  "mixedPortfolio =
     createTestPortfolio
       \<lparr>TradeHistory := [testTrade ''AAPL'' 100, testTrade ''MSFT'' 200, testTrade ''AAPL'' 200,
                         testTrade ''MSFT'' 100, testTrade ''AAPL'' 100]\<rparr>"

section \<open>Invariant of the valuation\<close>


section \<open>Order validation\<close>

text \<open>
  Claim C3. For every order and portfolio, \<^verbatim>\<open>ValidateOrder\<close> returns
  \<^verbatim>\<open>ErrInvalidQuantity\<close> iff the quantity is at most 0; otherwise \<^verbatim>\<open>ErrOrderTooSmall\<close>
  iff the notional (price times quantity) is below \<^verbatim>\<open>MinOrderSize\<close> and
  \<^verbatim>\<open>ErrOrderTooLarge\<close> iff the notional is above \<^verbatim>\<open>MaxOrderSize\<close> (for a band with
  \<^verbatim>\<open>MinOrderSize\<close> at most \<^verbatim>\<open>MaxOrderSize\<close>; in general the lower bound is tested
  first, and \<^verbatim>\<open>ErrOrderTooLarge\<close> is returned iff the notional is not below the one and
  is above the other); otherwise, for a buy, \<^verbatim>\<open>ErrInsufficientFunds\<close> iff the
  notional exceeds the cash, and for any other side (a sell),
  \<^verbatim>\<open>ErrInsufficientPosition\<close> iff the symbol has no position or the held quantity is less
  than the order's; in the remaining cases it returns nil. In every case the order and the
  portfolio are as they were.
\<close>

theorem ValidateOrder_cases:
  "((ValidateOrder config order pf = Some ErrInvalidQuantity)
      = (sint (Order.Quantity order) \<le> 0))
   \<and> (0 < sint (Order.Quantity order) \<longrightarrow>
        (ValidateOrder config order pf = Some ErrOrderTooSmall)
          = (notional order < MinOrderSize config))
   \<and> (0 < sint (Order.Quantity order) \<and> \<not> notional order < MinOrderSize config \<longrightarrow>
        (ValidateOrder config order pf = Some ErrOrderTooLarge)
          = (notional order > MaxOrderSize config))
   \<and> (0 < sint (Order.Quantity order) \<and> MinOrderSize config \<le> MaxOrderSize config \<longrightarrow>
        (ValidateOrder config order pf = Some ErrOrderTooLarge)
          = (notional order > MaxOrderSize config))
   \<and> (0 < sint (Order.Quantity order) \<and> \<not> notional order < MinOrderSize config
        \<and> \<not> notional order > MaxOrderSize config \<and> Order.Side order = OrderSideBuy \<longrightarrow>
        (ValidateOrder config order pf = Some ErrInsufficientFunds)
          = (Cash pf < notional order)
        \<and> (ValidateOrder config order pf = None)
          = (\<not> Cash pf < notional order))
   \<and> (0 < sint (Order.Quantity order) \<and> \<not> notional order < MinOrderSize config
        \<and> \<not> notional order > MaxOrderSize config \<and> Order.Side order \<noteq> OrderSideBuy \<longrightarrow>
        (ValidateOrder config order pf = Some ErrInsufficientPosition)
          = (fmlookup (Positions pf) (Order.Symbol order) = None
             \<or> heldQuantity pf (Order.Symbol order) < sint (Order.Quantity order))
        \<and> (ValidateOrder config order pf = None)
          = (fmlookup (Positions pf) (Order.Symbol order) \<noteq> None
             \<and> \<not> heldQuantity pf (Order.Symbol order) < sint (Order.Quantity order)))
   \<and> snd (ValidateOrder_call config (order, pf)) = (order, pf)"
  by (auto simp: ValidateOrder_def ValidateOrder_call_def NewFromInt_def notional_def
      heldQuantity_def Let_def word_sle_eq word_sless_alt split: option.splits)

theorem ValidateOrder_cases_witness:
  "ValidateOrder testConfig (testOrder OrderSideBuy 10 150) createTestPortfolio = None
   \<and> ValidateOrder testConfig (testOrder OrderSideBuy 0 150) createTestPortfolio
       = Some ErrInvalidQuantity
   \<and> ValidateOrder testConfig (testOrder OrderSideBuy 1 50) createTestPortfolio
       = Some ErrOrderTooSmall
   \<and> ValidateOrder testConfig (testOrder OrderSideBuy 1000 150) createTestPortfolio
       = Some ErrOrderTooLarge
   \<and> ValidateOrder testConfig (testOrder OrderSideBuy 10 150)
        (createTestPortfolio\<lparr>Cash := 1000\<rparr>) = Some ErrInsufficientFunds
   \<and> ValidateOrder testConfig (testOrder OrderSideSell 10 150) createTestPortfolio
       = Some ErrInsufficientPosition"
  using ValidateOrder_cases [of testConfig "testOrder OrderSideBuy 10 150" createTestPortfolio]
    ValidateOrder_cases [of testConfig "testOrder OrderSideBuy 0 150" createTestPortfolio]
    ValidateOrder_cases [of testConfig "testOrder OrderSideBuy 1 50" createTestPortfolio]
    ValidateOrder_cases [of testConfig "testOrder OrderSideBuy 1000 150" createTestPortfolio]
    ValidateOrder_cases [of testConfig "testOrder OrderSideBuy 10 150"
      "createTestPortfolio\<lparr>Cash := 1000\<rparr>"]
    ValidateOrder_cases [of testConfig "testOrder OrderSideSell 10 150" createTestPortfolio]
  by (simp add: testConfig_def zeroConfig_def testOrder_def createTestPortfolio_def
      notional_def heldQuantity_def OrderSideBuy_def OrderSideSell_def)

section \<open>Risk limits and risk metrics\<close>

lemma quot_zero: "quot 0 x = 0"
  by (simp add: quot_def DivRound16_def)

text \<open>
  Claim C6, amended. For every order and every portfolio whose total value is not zero,
  \<^verbatim>\<open>CalculateRisk\<close> takes as position risk the decimal quotient \<^verbatim>\<open>Div\<close> of the order's
  notional by the portfolio's total value, that is the ratio rounded at 16 decimal
  places, a half away from zero. It fails with \<^verbatim>\<open>ErrPositionTooLarge\<close> iff that rounded
  quotient exceeds \<^verbatim>\<open>MaxPositionSize\<close>; otherwise it fails with
  \<^verbatim>\<open>ErrPortfolioRiskExceeded\<close> iff the portfolio's current risk plus that rounded quotient
  exceeds \<^verbatim>\<open>MaxPortfolioRisk\<close>; it returns metrics only when neither limit is exceeded,
  and then it does return them unless the volatility's square root or the drawdown walk
  panics.
\<close>

theorem CalculateRisk_thresholds:
  assumes "TotalValue pf \<noteq> 0"
  shows "((CalculateRisk fsqrt config order pf = Inl (Err ErrPositionTooLarge))
           = (quot (notional order) (TotalValue pf) > MaxPositionSize config))
   \<and> (\<not> quot (notional order) (TotalValue pf) > MaxPositionSize config \<longrightarrow>
        (CalculateRisk fsqrt config order pf = Inl (Err ErrPortfolioRiskExceeded))
          = (TotalRisk pf + quot (notional order) (TotalValue pf) > MaxPortfolioRisk config))
   \<and> (\<forall>metrics. CalculateRisk fsqrt config order pf = Inr metrics \<longrightarrow>
        \<not> quot (notional order) (TotalValue pf) > MaxPositionSize config
        \<and> \<not> TotalRisk pf + quot (notional order) (TotalValue pf) > MaxPortfolioRisk config)
   \<and> (\<not> quot (notional order) (TotalValue pf) > MaxPositionSize config
        \<and> \<not> TotalRisk pf + quot (notional order) (TotalValue pf) > MaxPortfolioRisk config
        \<and> (\<exists>v. calculateVolatility fsqrt (Order.Symbol order) pf = Inr v)
        \<and> (\<exists>d. calculateMaxDrawdown pf = Inr d) \<longrightarrow>
        (\<exists>metrics. CalculateRisk fsqrt config order pf = Inr metrics))
   \<and> (\<not> quot (notional order) (TotalValue pf) > MaxPositionSize config
        \<and> \<not> TotalRisk pf + quot (notional order) (TotalValue pf) > MaxPortfolioRisk config
        \<longrightarrow>
        (\<forall>p. (CalculateRisk fsqrt config order pf = Inl (Panic p))
           = (calculateVolatility fsqrt (Order.Symbol order) pf = Inl p
              \<or> (\<exists>v. calculateVolatility fsqrt (Order.Symbol order) pf = Inr v)
                \<and> calculateMaxDrawdown pf = Inl p)))"
  using assms
  by (auto simp: CalculateRisk_def NewFromInt_def notional_def Let_def split: sum.splits)

lemma createTestPortfolio_volatility:
  "calculateVolatility fsqrt symbol createTestPortfolio = Inr 0"
  by (simp add: calculateVolatility_def createTestPortfolio_def)

lemma createTestPortfolio_drawdown:
  "calculateMaxDrawdown createTestPortfolio = Inr 0"
  by (simp add: calculateMaxDrawdown_def createTestPortfolio_def)

text \<open>
  The first two orders are rejected on the portfolio and limits of the repository's test
  of \<^verbatim>\<open>CalculateRisk\<close>; the third passes on the portfolio without history.
\<close>

theorem CalculateRisk_thresholds_witness:
  "\<forall>fsqrt.
     CalculateRisk fsqrt riskConfig (testOrder OrderSideBuy 2000 155)
         createTestPortfolioWithHistory
       = Inl (Err ErrPositionTooLarge)
     \<and> CalculateRisk fsqrt riskConfig (testOrder OrderSideBuy 100 155)
         createTestPortfolioWithHistory
       = Inl (Err ErrPortfolioRiskExceeded)
     \<and> (\<exists>metrics.
          CalculateRisk fsqrt riskConfig (testOrder OrderSideBuy 10 150) createTestPortfolio
            = Inr metrics)"
proof
  fix fsqrt :: FloatSqrt
  have tv: "TotalValue createTestPortfolioWithHistory \<noteq> 0"
    by (simp add: createTestPortfolioWithHistory_def createTestPortfolio_def)
  have tv': "TotalValue createTestPortfolio \<noteq> 0"
    by (simp add: createTestPortfolio_def)
  show "CalculateRisk fsqrt riskConfig (testOrder OrderSideBuy 2000 155)
         createTestPortfolioWithHistory
       = Inl (Err ErrPositionTooLarge)
     \<and> CalculateRisk fsqrt riskConfig (testOrder OrderSideBuy 100 155)
         createTestPortfolioWithHistory
       = Inl (Err ErrPortfolioRiskExceeded)
     \<and> (\<exists>metrics.
          CalculateRisk fsqrt riskConfig (testOrder OrderSideBuy 10 150) createTestPortfolio
            = Inr metrics)"
    using CalculateRisk_thresholds [OF tv, of fsqrt riskConfig "testOrder OrderSideBuy 2000 155"]
      CalculateRisk_thresholds [OF tv, of fsqrt riskConfig "testOrder OrderSideBuy 100 155"]
      CalculateRisk_thresholds [OF tv', of fsqrt riskConfig "testOrder OrderSideBuy 10 150"]
      createTestPortfolio_volatility [of fsqrt "''AAPL''"] createTestPortfolio_drawdown
    by (simp add: createTestPortfolioWithHistory_def createTestPortfolio_def riskConfig_def
        zeroConfig_def testOrder_def notional_def quot_def DivRound16_def)
qed

text \<open>
  The claim as stated fails where the rounding crosses the limit: with a total value of
  3 and a notional of 2 the ratio is two thirds, which does not exceed the limit
  0.66666666666666667, while the quotient the code compares is 0.6666666666666667, which
  does, and the order is rejected.
\<close>

theorem CalculateRisk_thresholds_counterexample:
  "TotalValue thirdsPortfolio = 3
   \<and> notional (testOrder OrderSideBuy 1 2) = 2
   \<and> (2 / 3 :: real) \<le> MaxPositionSize thirdsConfig
   \<and> quot 2 3 = 6666666666666667 / 10 ^ 16
   \<and> (\<forall>fsqrt. CalculateRisk fsqrt thirdsConfig (testOrder OrderSideBuy 1 2) thirdsPortfolio
         = Inl (Err ErrPositionTooLarge))"
  by (simp add: CalculateRisk_def thirdsPortfolio_def thirdsConfig_def riskConfig_def
      zeroConfig_def createTestPortfolio_def testOrder_def notional_def NewFromInt_def
      quot_def DivRound16_def)

subsection \<open>The drawdown walk\<close>






text \<open>The walk ends without a panic when it starts from a positive peak.\<close>

lemma drawdownLoop_positive:
  "0 < peak \<Longrightarrow> \<exists>d. drawdownLoop ts peak m = Inr d"
proof (induction ts arbitrary: peak m)
  case Nil
  then show ?case by simp
next
  case (Cons t ts)
  let ?pk = "if Trade.Price t > peak then Trade.Price t else peak"
  from Cons.prems have "0 < ?pk" by simp
  then show ?case using Cons.IH [of ?pk] by (simp add: Div_def Let_def del: if_split)
qed




section \<open>Order execution and position accounting\<close>

lemmas fixture_defs = mainEngine_def NewTradingEngine_def AddStrategy_def mainConfig_def
  testOrder_def holdingEngine_def aaplPosition_def OrderSideBuy_def OrderSideSell_def
  PortfolioRiskMetrics_zero_def

lemmas run_defs = executeOrder_def updatePosition_def processOrder_def ValidateOrder_def
  CalculateRisk_def calculateVolatility_def calculateMaxDrawdown_def calculateBeta_def
  calculateVaR_def calculateExpectedShortfall_def calculateSharpeRatio_def NewFromInt_def
  Div_def quot_def DivRound16_def word_sless_alt word_sle_eq Let_def

subsection \<open>int64 arithmetic that does not wrap\<close>

lemma sint_add_fits:
  fixes h q :: int64
  assumes "- (2 ^ 63) \<le> sint h + sint q" and "sint h + sint q < 2 ^ 63"
  shows "sint (h + q) = sint h + sint q"
  using assms by (simp add: sint_word_add signed_take_bit_int_eq_self)

lemma sint_minus_fits:
  fixes q :: int64
  assumes "- (2 ^ 63) < sint q"
  shows "sint (- q) = - sint q"
proof -
  have "sint q < 2 ^ 63" using sint_lt [of q] by simp
  with assms show ?thesis
    by (simp add: sint_word_minus signed_take_bit_int_eq_self)
qed

lemma sint_sell:
  fixes h q :: int64
  assumes "0 < sint q" and "sint q \<le> sint h"
  shows "sint (h + (- q)) = sint h - sint q"
proof -
  have m: "sint (- q) = - sint q" using assms(1) by (intro sint_minus_fits) simp
  have "sint h < 2 ^ 63" using sint_lt [of h] by simp
  with assms m show ?thesis
    by (subst sint_add_fits) simp_all
qed

subsection \<open>Buying\<close>

text \<open>
  Claim C1, amended. For every buy order of positive quantity (every valid one) executed
  on a portfolio whose held quantity of the symbol, added to the order's, stays within
  int64 and is not zero (it is not zero when the held quantity is not negative): the cash
  falls by exactly the notional plus the commission of 0.001 times the notional; the
  position exists afterwards and its quantity is the held quantity plus the order's; and
  its average price is the decimal quotient of \<open>oldAvg * oldQty + price * addedQty\<close> by
  \<open>oldQty + addedQty\<close>, where an absent position counts as quantity 0 at average 0.
  (The quantities are added in int64: past \<open>2\<^sup>6\<^sup>3 - 1\<close> the sum wraps to a negative
  quantity.)
\<close>

theorem executeOrder_buy:
  assumes side: "Order.Side order = OrderSideBuy"
    and q: "0 < sint (Order.Quantity order)"
    and fits: "heldQuantity (portfolio e) (Order.Symbol order) + sint (Order.Quantity order)
                 < 2 ^ 63"
    and nonzero: "heldQuantity (portfolio e) (Order.Symbol order) + sint (Order.Quantity order)
                 \<noteq> 0"
  shows "\<exists>e'. executeOrder e order tradeID now = Inr e'
    \<and> Cash (portfolio e') = Cash (portfolio e) - notional order - notional order * 0.001
    \<and> fmlookup (Positions (portfolio e')) (Order.Symbol order) \<noteq> None
    \<and> heldQuantity (portfolio e') (Order.Symbol order)
        = heldQuantity (portfolio e) (Order.Symbol order) + sint (Order.Quantity order)
    \<and> heldAverage (portfolio e') (Order.Symbol order)
        = quot (heldAverage (portfolio e) (Order.Symbol order)
                  * of_int (heldQuantity (portfolio e) (Order.Symbol order))
                + Order.Price order * of_int (sint (Order.Quantity order)))
               (of_int (heldQuantity (portfolio e) (Order.Symbol order)
                  + sint (Order.Quantity order)))"
proof (cases "fmlookup (Positions (portfolio e)) (Order.Symbol order)")
  case None
  from q have "Order.Quantity order \<noteq> 0" by auto
  with None side q show ?thesis
    by (simp add: executeOrder_def updatePosition_def Let_def notional_def NewFromInt_def
        heldQuantity_def heldAverage_def word_sless_alt Div_def signed_eq_0_iff)
next
  case (Some held)
  have "- (2 ^ 63) \<le> sint (Position.Quantity held)"
    using sint_ge [of "Position.Quantity held"] by simp
  with Some fits have sum: "sint (Position.Quantity held + Order.Quantity order)
      = sint (Position.Quantity held) + sint (Order.Quantity order)"
    using q by (intro sint_add_fits) (simp_all add: heldQuantity_def)
  from Some nonzero sum have nz: "Position.Quantity held + Order.Quantity order \<noteq> 0"
    by (auto simp: heldQuantity_def)
  have avg: "(of_int (sint (Position.Quantity held) + sint (Order.Quantity order)) :: real)
      = signed (Position.Quantity held + Order.Quantity order)"
    using sum by (metis of_int_sint)
  from Some side q sum nz show ?thesis
    by (simp add: executeOrder_def updatePosition_def Let_def notional_def NewFromInt_def
        heldQuantity_def heldAverage_def word_sless_alt Div_def signed_eq_0_iff avg
        del: of_int_add)
qed

text \<open>
  The first fill of the specification's scenario: 100 AAPL at 150 bought with 100000
  in cash.
\<close>

theorem executeOrder_buy_witness:
  "\<exists>e'. executeOrder (mainEngine 100000) (testOrder OrderSideBuy 100 150) ''TRD-1'' 0 = Inr e'
     \<and> Cash (portfolio e') = 84985
     \<and> fmlookup (Positions (portfolio e')) ''AAPL'' \<noteq> None
     \<and> heldQuantity (portfolio e') ''AAPL'' = 100
     \<and> heldAverage (portfolio e') ''AAPL'' = 150"
  using executeOrder_buy [of "testOrder OrderSideBuy 100 150" "mainEngine 100000" "''TRD-1''" 0]
  by (simp add: fixture_defs notional_def heldQuantity_def heldAverage_def quot_def
      DivRound16_def)

text \<open>
  The claim as stated fails where the sum leaves int64: a valid buy of 1 on a holding
  of \<open>2\<^sup>6\<^sup>3 - 1\<close> leaves a holding of \<open>- 2\<^sup>6\<^sup>3\<close>.
\<close>

theorem executeOrder_buy_counterexample:
  "ValidateOrder mainConfig (testOrder OrderSideBuy 1 1000)
      (portfolio (holdingEngine 90000 9223372036854775807 (1 / 10 ^ 15))) = None
   \<and> heldQuantity (portfolio (holdingEngine 90000 9223372036854775807 (1 / 10 ^ 15))) ''AAPL''
      = 9223372036854775807
   \<and> sint (Order.Quantity (testOrder OrderSideBuy 1 1000)) = 1
   \<and> map_sum id (\<lambda>e'. heldQuantity (portfolio e') ''AAPL'')
        (executeOrder (holdingEngine 90000 9223372036854775807 (1 / 10 ^ 15))
           (testOrder OrderSideBuy 1 1000) ''TRD-2'' 0)
      = Inr (- 9223372036854775808)"
  by (simp add: fixture_defs run_defs heldQuantity_def)

text \<open>
  Such a holding is one fill away from a new engine under the configuration of main.go:
  \<open>2\<^sup>6\<^sup>3 - 1\<close> units at \<open>10\<^sup>-\<^sup>1\<^sup>5\<close> are a notional of about 9223.
\<close>

lemma holding_reached:
  "map_sum id (\<lambda>(order', e'). (Order.Status order', fmlookup (Positions (portfolio e')) ''AAPL''))
     (processOrder fsqrt (mainEngine 100000)
        (testOrder OrderSideBuy 9223372036854775807 (1 / 10 ^ 15)) ''TRD-1'' 0)
   = Inr (OrderStatusFilled, Some (aaplPosition 9223372036854775807 (1 / 10 ^ 15)))"
  by (simp add: fixture_defs run_defs OrderStatusFilled_def RiskMetrics_zero_def)

subsection \<open>Selling\<close>

text \<open>
  Claim C2. For every sell order of positive quantity (every filled one) executed
  against a position that holds at least the order's quantity: the cash rises by exactly
  the notional less the commission of 0.001 times the notional; the held quantity falls
  by the order's quantity; the position stays in the map, with that quantity, when
  something is left, and is absent from the map afterwards when the quantity left is 0 or
  less; and the portfolio's realized P&L is what it was.
\<close>

theorem executeOrder_sell:
  assumes side: "Order.Side order \<noteq> OrderSideBuy"
    and pos: "fmlookup (Positions (portfolio e)) (Order.Symbol order) = Some held"
    and q: "0 < sint (Order.Quantity order)"
    and enough: "sint (Order.Quantity order) \<le> sint (Position.Quantity held)"
  shows "\<exists>e'. executeOrder e order tradeID now = Inr e'
    \<and> Cash (portfolio e') = Cash (portfolio e) + notional order - notional order * 0.001
    \<and> fmlookup (Positions (portfolio e')) (Order.Symbol order) =
        (if sint (Position.Quantity held) - sint (Order.Quantity order) \<le> 0 then None
         else Some (held\<lparr>Position.Quantity := Position.Quantity held - Order.Quantity order,
                         CurrentPrice := Order.Price order, LastUpdated := now\<rparr>))
    \<and> heldQuantity (portfolio e') (Order.Symbol order)
        = sint (Position.Quantity held) - sint (Order.Quantity order)
    \<and> Portfolio.RealizedPnL (portfolio e') = Portfolio.RealizedPnL (portfolio e)"
proof -
  have neg: "\<not> 0 <s - Order.Quantity order"
    using q by (simp add: word_sless_alt sint_minus_fits)
  have diff: "sint (Position.Quantity held + (- Order.Quantity order))
      = sint (Position.Quantity held) - sint (Order.Quantity order)"
    using q enough by (rule sint_sell)
  show ?thesis
    using side pos neg diff q enough
    by (auto simp: executeOrder_def updatePosition_def Let_def notional_def NewFromInt_def
        heldQuantity_def word_sle_eq)
qed

text \<open>Of 100 AAPL held, 40 are sold at 160, or all 100.\<close>

theorem executeOrder_sell_witness:
  "(\<exists>e'. executeOrder (holdingEngine 84985 100 150) (testOrder OrderSideSell 40 160) ''TRD-2'' 0
         = Inr e'
      \<and> Cash (portfolio e') = 84985 + 6400 - 6.4
      \<and> heldQuantity (portfolio e') ''AAPL'' = 60
      \<and> fmlookup (Positions (portfolio e')) ''AAPL'' \<noteq> None
      \<and> Portfolio.RealizedPnL (portfolio e') = 0)
   \<and> (\<exists>e'. executeOrder (holdingEngine 84985 100 150) (testOrder OrderSideSell 100 160) ''TRD-2'' 0
         = Inr e'
      \<and> Cash (portfolio e') = 84985 + 16000 - 16
      \<and> fmlookup (Positions (portfolio e')) ''AAPL'' = None
      \<and> Portfolio.RealizedPnL (portfolio e') = 0)"
  using executeOrder_sell [of "testOrder OrderSideSell 40 160" "holdingEngine 84985 100 150"
      "aaplPosition 100 150" "''TRD-2''" 0]
    executeOrder_sell [of "testOrder OrderSideSell 100 160" "holdingEngine 84985 100 150"
      "aaplPosition 100 150" "''TRD-2''" 0]
  by (auto simp add: fixture_defs notional_def)

section \<open>Order intake\<close>

lemmas zero_defs = RiskMetrics_zero_def OrderStatusFilled_def OrderStatusRejected_def
  OrderStatusPending_def OrderTypeMarket_def

lemmas check_defs = ValidateOrder_def CalculateRisk_def calculateVolatility_def
  calculateMaxDrawdown_def calculateBeta_def calculateVaR_def calculateExpectedShortfall_def
  calculateSharpeRatio_def NewFromInt_def Div_def quot_def DivRound16_def word_sless_alt
  word_sle_eq Let_def

text \<open>
  Claim C8, amended. An order whose strategy is not registered, that fails validation,
  or whose risk check returns an error ends rejected, and processing leaves the engine as
  it was: the order is not appended to the order history and no trade is queued. An
  order that passes both checks, on a portfolio whose held quantity of the symbol and
  the order's do not add up to zero (they do not when the held quantity is not
  negative), ends filled: exactly one trade, carrying the order's id, is appended to the
  trade queue, and the order is appended, once, to the order history.
\<close>

theorem processOrder_history:
  "(fmlookup (strategies e) (Order.StrategyID order) = None \<longrightarrow>
      processOrder fsqrt e order tradeID now = Inr (order\<lparr>Status := OrderStatusRejected\<rparr>, e))
   \<and> (fmlookup (strategies e) (Order.StrategyID order) = Some strategy
        \<and> (ValidateOrder strategy order (portfolio e) = Some err
           \<or> CalculateRisk fsqrt strategy order (portfolio e) = Inl (Err err)) \<longrightarrow>
        processOrder fsqrt e order tradeID now = Inr (order\<lparr>Status := OrderStatusRejected\<rparr>, e))
   \<and> (fmlookup (strategies e) (Order.StrategyID order) = Some strategy
        \<and> ValidateOrder strategy order (portfolio e) = None
        \<and> CalculateRisk fsqrt strategy order (portfolio e) = Inr metrics
        \<and> heldQuantity (portfolio e) (Order.Symbol order) + sint (Order.Quantity order) \<noteq> 0
        \<longrightarrow>
        (\<exists>e' trade.
           processOrder fsqrt e order tradeID now
             = Inr (order\<lparr>Order.RiskMetrics := metrics, Status := OrderStatusFilled\<rparr>, e')
           \<and> tradeQueue e' = tradeQueue e @ [trade]
           \<and> Trade.OrderID trade = Order.ID order
           \<and> OrderHistory (portfolio e')
               = OrderHistory (portfolio e)
                   @ [order\<lparr>Order.RiskMetrics := metrics, Status := OrderStatusFilled\<rparr>]))"
proof (intro conjI impI)
  assume "fmlookup (strategies e) (Order.StrategyID order) = None"
  then show "processOrder fsqrt e order tradeID now = Inr (order\<lparr>Status := OrderStatusRejected\<rparr>, e)"
    by (simp add: processOrder_def)
next
  assume "fmlookup (strategies e) (Order.StrategyID order) = Some strategy
        \<and> (ValidateOrder strategy order (portfolio e) = Some err
           \<or> CalculateRisk fsqrt strategy order (portfolio e) = Inl (Err err))"
  then show "processOrder fsqrt e order tradeID now = Inr (order\<lparr>Status := OrderStatusRejected\<rparr>, e)"
    by (auto simp: processOrder_def split: option.splits)
next
  assume a: "fmlookup (strategies e) (Order.StrategyID order) = Some strategy
        \<and> ValidateOrder strategy order (portfolio e) = None
        \<and> CalculateRisk fsqrt strategy order (portfolio e) = Inr metrics
        \<and> heldQuantity (portfolio e) (Order.Symbol order) + sint (Order.Quantity order) \<noteq> 0"
  let ?o = "order\<lparr>Order.RiskMetrics := metrics, Status := OrderStatusFilled\<rparr>"
  from a have q: "0 < sint (Order.Quantity order)"
    by (auto simp: ValidateOrder_def word_sle_eq split: if_splits)
  have nz: "Order.Quantity order \<noteq> 0" using q by auto
  have sum: "h + Order.Quantity order \<noteq> 0"
    if "sint h + sint (Order.Quantity order) \<noteq> 0" for h
  proof
    assume "h + Order.Quantity order = 0"
    then have "h = - Order.Quantity order" by (simp add: add_eq_0_iff2)
    moreover have "sint (- Order.Quantity order) = - sint (Order.Quantity order)"
      using q by (intro sint_minus_fits) simp
    ultimately show False using that by simp
  qed
  have neg: "\<not> 0 <s - Order.Quantity order"
    using q by (simp add: word_sless_alt sint_minus_fits)
  have "\<exists>e''. executeOrder e ?o tradeID now = Inr e''
      \<and> (\<exists>trade. tradeQueue e'' = tradeQueue e @ [trade] \<and> Trade.OrderID trade = Order.ID order)
      \<and> OrderHistory (portfolio e'') = OrderHistory (portfolio e)"
    using a q nz sum neg
    by (auto simp: executeOrder_def updatePosition_def Let_def Div_def NewFromInt_def
        heldQuantity_def signed_eq_0_iff word_sless_alt split: option.splits)
  then show "\<exists>e' trade.
           processOrder fsqrt e order tradeID now = Inr (?o, e')
           \<and> tradeQueue e' = tradeQueue e @ [trade]
           \<and> Trade.OrderID trade = Order.ID order
           \<and> OrderHistory (portfolio e') = OrderHistory (portfolio e) @ [?o]"
    using a by (auto simp: processOrder_def Let_def)
qed

theorem processOrder_history_witness:
  "\<forall>fsqrt.
    (\<exists>e' trade.
      processOrder fsqrt (mainEngine 100000) (testOrder OrderSideBuy 10 150) ''TRD-1'' 0
        = Inr ((testOrder OrderSideBuy 10 150)
                 \<lparr>Order.RiskMetrics := RiskMetrics_zero\<lparr>Beta := 1\<rparr>,
                  Status := OrderStatusFilled\<rparr>, e')
      \<and> tradeQueue e' = [trade]
      \<and> Trade.OrderID trade = ''ORD-1''
      \<and> OrderHistory (portfolio e')
          = [(testOrder OrderSideBuy 10 150)
               \<lparr>Order.RiskMetrics := RiskMetrics_zero\<lparr>Beta := 1\<rparr>,
                Status := OrderStatusFilled\<rparr>])
   \<and> processOrder fsqrt (mainEngine 100000) (testOrder OrderSideBuy 1 150) ''TRD-1'' 0
       = Inr ((testOrder OrderSideBuy 1 150)\<lparr>Status := OrderStatusRejected\<rparr>, mainEngine 100000)
   \<and> processOrder fsqrt (mainEngine 100000)
        ((testOrder OrderSideBuy 10 150)\<lparr>Order.StrategyID := ''nobody''\<rparr>) ''TRD-1'' 0
       = Inr ((testOrder OrderSideBuy 10 150)
                \<lparr>Order.StrategyID := ''nobody'', Status := OrderStatusRejected\<rparr>,
              mainEngine 100000)"
proof
  fix f :: FloatSqrt
  show "(\<exists>e' trade.
      processOrder f (mainEngine 100000) (testOrder OrderSideBuy 10 150) ''TRD-1'' 0
        = Inr ((testOrder OrderSideBuy 10 150)
                 \<lparr>Order.RiskMetrics := RiskMetrics_zero\<lparr>Beta := 1\<rparr>,
                  Status := OrderStatusFilled\<rparr>, e')
      \<and> tradeQueue e' = [trade]
      \<and> Trade.OrderID trade = ''ORD-1''
      \<and> OrderHistory (portfolio e')
          = [(testOrder OrderSideBuy 10 150)
               \<lparr>Order.RiskMetrics := RiskMetrics_zero\<lparr>Beta := 1\<rparr>,
                Status := OrderStatusFilled\<rparr>])
   \<and> processOrder f (mainEngine 100000) (testOrder OrderSideBuy 1 150) ''TRD-1'' 0
       = Inr ((testOrder OrderSideBuy 1 150)\<lparr>Status := OrderStatusRejected\<rparr>, mainEngine 100000)
   \<and> processOrder f (mainEngine 100000)
        ((testOrder OrderSideBuy 10 150)\<lparr>Order.StrategyID := ''nobody''\<rparr>) ''TRD-1'' 0
       = Inr ((testOrder OrderSideBuy 10 150)
                \<lparr>Order.StrategyID := ''nobody'', Status := OrderStatusRejected\<rparr>,
              mainEngine 100000)"
    using processOrder_history [where fsqrt = f and e = "mainEngine 100000"
        and order = "testOrder OrderSideBuy 10 150" and tradeID = "''TRD-1''" and now = 0
        and strategy = mainConfig and err = ErrOrderTooSmall
        and metrics = "RiskMetrics_zero\<lparr>Beta := 1\<rparr>"]
      processOrder_history [where fsqrt = f and e = "mainEngine 100000"
        and order = "testOrder OrderSideBuy 1 150" and tradeID = "''TRD-1''" and now = 0
        and strategy = mainConfig and err = ErrOrderTooSmall
        and metrics = "RiskMetrics_zero\<lparr>Beta := 1\<rparr>"]
      processOrder_history [where fsqrt = f and e = "mainEngine 100000"
        and order = "(testOrder OrderSideBuy 10 150)\<lparr>Order.StrategyID := ''nobody''\<rparr>"
        and tradeID = "''TRD-1''" and now = 0
        and strategy = mainConfig and err = ErrOrderTooSmall
        and metrics = "RiskMetrics_zero\<lparr>Beta := 1\<rparr>"]
    by (simp add: fixture_defs check_defs heldQuantity_def RiskMetrics_zero_def)
qed

text \<open>
  The claim as stated fails on a rejected order: processing ends with the order history
  as empty as it was.
\<close>

theorem processOrder_history_counterexample:
  "(\<forall>fsqrt. processOrder fsqrt (mainEngine 100000) (testOrder OrderSideBuy 0 150) ''TRD-1'' 0
       = Inr ((testOrder OrderSideBuy 0 150)\<lparr>Status := OrderStatusRejected\<rparr>,
              mainEngine 100000))
   \<and> OrderHistory (portfolio (mainEngine 100000)) = []"
  by (simp add: fixture_defs run_defs)

section \<open>Cash after a fill\<close>

text \<open>
  Claim C9. There are a portfolio and a buy order that pass both \<^verbatim>\<open>ValidateOrder\<close> and
  \<^verbatim>\<open>CalculateRisk\<close> and leave the cash negative once filled: with 10000 in cash, a buy
  of 10 at 1000 has a notional equal to the cash, validation compares the cash with the
  notional alone, and the fill leaves the cash at minus the commission of 10.
\<close>

theorem negative_cash:
  "ValidateOrder allInConfig (testOrder OrderSideBuy 10 1000) (portfolio allInEngine) = None
   \<and> CalculateRisk fsqrt allInConfig (testOrder OrderSideBuy 10 1000) (portfolio allInEngine)
       = Inr (RiskMetrics_zero\<lparr>Beta := 1\<rparr>)
   \<and> notional (testOrder OrderSideBuy 10 1000) = Cash (portfolio allInEngine)
   \<and> map_sum id (\<lambda>e'. Cash (portfolio e'))
        (executeOrder allInEngine (testOrder OrderSideBuy 10 1000) ''TRD-1'' 0) = Inr (- 10)
   \<and> map_sum id (\<lambda>(order', e'). (Order.Status order', Cash (portfolio e')))
        (processOrder fsqrt allInEngine (testOrder OrderSideBuy 10 1000) ''TRD-1'' 0)
       = Inr (OrderStatusFilled, - 10)"
  by (simp add: fixture_defs run_defs allInConfig_def allInEngine_def zero_defs notional_def)

section \<open>The risk sweep\<close>

lemmas scenario_defs = scenarioEngine_def NewTradingEngine_def AddStrategy_def mainConfig_def
  testOrder_def aaplPosition_def OrderSideBuy_def PortfolioRiskMetrics_zero_def
  filledOrder_def firstTrade_def firstFill_def zero_defs

lemma scenario_submitted:
  "createOrderFromResult scenarioEngine aaplSignal ''ORD-1'' 0
     = scenarioEngine\<lparr>orderQueue := [testOrder OrderSideBuy 100 150]\<rparr>"
  by (simp add: createOrderFromResult_def aaplSignal_def scenario_defs)

lemma scenario_filled:
  "processOrder fsqrt scenarioEngine (testOrder OrderSideBuy 100 150) ''TRD-1'' 0
     = Inr (filledOrder, firstFill)"
  by (simp add: scenario_defs run_defs)

lemma reachable_firstFill: "reachable fsqrt firstFill"
proof -
  have "reachable fsqrt scenarioEngine"
    unfolding scenarioEngine_def by (intro reachable.added reachable.created)
  then have "reachable fsqrt (createOrderFromResult scenarioEngine aaplSignal ''ORD-1'' 0)"
    by (rule reachable.submitted)
  then show ?thesis
  proof (rule reachable.intake)
    show "orderQueue (createOrderFromResult scenarioEngine aaplSignal ''ORD-1'' 0)
        = testOrder OrderSideBuy 100 150 # []"
      by (simp add: scenario_submitted)
    have "createOrderFromResult scenarioEngine aaplSignal ''ORD-1'' 0\<lparr>orderQueue := []\<rparr>
        = scenarioEngine"
      unfolding scenario_submitted
      by (simp add: scenarioEngine_def AddStrategy_def NewTradingEngine_def)
    then show "processOrder fsqrt
        (createOrderFromResult scenarioEngine aaplSignal ''ORD-1'' 0\<lparr>orderQueue := []\<rparr>)
        (testOrder OrderSideBuy 100 150) ''TRD-1'' 0 = Inr (filledOrder, firstFill)"
      using scenario_filled [of fsqrt] by simp
  qed
qed

text \<open>
  Claim C10. In a state the engine reaches, the one right after the first fill of the
  scenario, the position just created has a positive quantity and the market value 0 it
  was created with, no valuation having run; the sweep's division of the unrealized P&L
  by the market value is then a division by zero, and \<^verbatim>\<open>manageRisk\<close> panics.
\<close>

theorem manageRisk_panics:
  "reachable fsqrt firstFill
   \<and> map_option (\<lambda>position. (sint (Position.Quantity position), MarketValue position))
        (fmlookup (Positions (portfolio firstFill)) ''AAPL'') = Some (100, 0)
   \<and> manageRisk firstFill = Inl DivisionByZero"
  using reachable_firstFill [of fsqrt]
  by (simp add: manageRisk_def scenario_defs word_sless_alt)

section \<open>The valuation pass\<close>













section \<open>Volatility\<close>

text \<open>
  Claim C4. The volatility \<^verbatim>\<open>CalculateRisk\<close> returns is to be the population standard
  deviation of the consecutive percentage returns of the symbol's own price series, each
  return taken between successive trades of that symbol. \<^verbatim>\<open>calculateVolatility\<close> does
  otherwise: at each trade of the symbol it takes the return against the trade just
  before it in the whole history, whatever the symbol of that trade. In the history
  AAPL 100, MSFT 200, AAPL 200, MSFT 100, AAPL 100 the returns it collects for AAPL are
  0 and 0 and the volatility it returns is 0, while AAPL's own series 100, 200, 100 has
  the returns 1 and \<open>- 1 / 2\<close>, whose population standard deviation is \<open>3 / 4\<close>.
\<close>

theorem calculateVolatility_mixed:
  "calculateVolatility fsqrt ''AAPL'' mixedPortfolio = Inr 0
   \<and> map Trade.Price (getTradesForSymbol ''AAPL'' (TradeHistory mixedPortfolio)) = [100, 200, 100]
   \<and> consecutiveReturns [100, 200, 100] = [1, - 1 / 2]
   \<and> ownSeriesVolatility ''AAPL'' mixedPortfolio = 3 / 4"
proof -
  have upt5: "[1 ..< 5] = [1, 2, 3, Suc 3]" by (simp add: upt_rec)
  have upt3: "[1 ..< 3] = [1, 2]" by (simp add: upt_rec)
  have code: "calculateVolatility fsqrt ''AAPL'' mixedPortfolio = Inr 0"
    by (simp add: calculateVolatility_def collectReturns_def mixedPortfolio_def
        createTestPortfolio_def testTrade_def quot_def DivRound16_def upt5)
  have series: "map Trade.Price (getTradesForSymbol ''AAPL'' (TradeHistory mixedPortfolio))
      = [100, 200, 100]"
    by (simp add: getTradesForSymbol_def mixedPortfolio_def createTestPortfolio_def testTrade_def)
  have returns: "consecutiveReturns [100, 200, 100] = [1, - 1 / 2]"
    by (simp add: consecutiveReturns_def quot_def DivRound16_def upt3)
  have "sqrt (9 / 16) = 3 / 4"
    by (simp add: real_sqrt_divide)
  then have "populationDeviation [1, - 1 / 2] = 3 / 4"
    by (simp add: populationDeviation_def quot_def DivRound16_def)
  with code series returns show ?thesis
    by (simp add: ownSeriesVolatility_def)
qed

text \<open>
  The second half of the claim holds of the code: with fewer than two trades of the
  symbol in the history the volatility is zero. A decimal quotient is first shown to be
  its own rounding.
\<close>

lemma DivRound16_idem: "DivRound16 (DivRound16 x) = DivRound16 x"
proof -
  define n where "n = \<lfloor>\<bar>x\<bar> * 10 ^ 16 + 1 / 2\<rfloor>"
  have n0: "0 \<le> n" unfolding n_def by simp
  have y: "DivRound16 x = sgn x * of_int n / 10 ^ 16"
    by (simp add: DivRound16_def n_def)
  show ?thesis
  proof (cases "x = 0 \<or> n = 0")
    case True
    then have z: "DivRound16 x = 0" using y by auto
    have "DivRound16 0 = 0" by (simp add: DivRound16_def)
    with z show ?thesis by simp
  next
    case False
    then have pos: "0 < n" and x: "x \<noteq> 0" using n0 by auto
    have a: "\<bar>sgn x * of_int n / 10 ^ 16\<bar> * 10 ^ 16 = of_int n"
      using x pos by (simp add: abs_mult)
    have s: "sgn (sgn x * of_int n / 10 ^ 16) = sgn x"
      using x pos by (simp add: sgn_mult sgn_divide)
    have f: "\<lfloor>of_int n + (1 / 2 :: real)\<rfloor> = n"
      by linarith
    have "DivRound16 (sgn x * of_int n / 10 ^ 16)
        = sgn (sgn x * of_int n / 10 ^ 16)
          * of_int \<lfloor>\<bar>sgn x * of_int n / 10 ^ 16\<bar> * 10 ^ 16 + 1 / 2\<rfloor> / 10 ^ 16"
      by (simp only: DivRound16_def)
    also have "\<dots> = sgn x * of_int \<lfloor>of_int n + (1 / 2 :: real)\<rfloor> / 10 ^ 16"
      by (simp only: a s)
    also have "\<dots> = sgn x * of_int n / 10 ^ 16"
      by (simp only: f)
    finally show ?thesis
      unfolding y .
  qed
qed

lemma collectReturns_step:
  "collectReturns symbol (a # b # rest) =
     (if Trade.Symbol b = symbol \<and> Trade.Price a \<noteq> 0
      then [quot (Trade.Price b - Trade.Price a) (Trade.Price a)] else [])
     @ collectReturns symbol (b # rest)"
proof -
  let ?at = "\<lambda>h i.
        if Trade.Symbol (h ! i) = symbol then
          (let prevPrice = Trade.Price (h ! (i - 1));
               currPrice = Trade.Price (h ! i)
           in if prevPrice \<noteq> 0 then [quot (currPrice - prevPrice) prevPrice] else [])
        else []"
  have idx: "[1 ..< length (a # b # rest)] = 1 # map Suc [1 ..< length (b # rest)]"
    by (simp add: map_Suc_upt upt_conv_Cons del: upt_Suc)
  have tail: "map (?at (a # b # rest)) (map Suc [1 ..< length (b # rest)])
      = map (?at (b # rest)) [1 ..< length (b # rest)]"
    by (auto simp: nth_Cons' simp del: upt_Suc)
  have "collectReturns symbol (a # b # rest)
      = ?at (a # b # rest) 1 @ concat (map (?at (a # b # rest)) (map Suc [1 ..< length (b # rest)]))"
    unfolding collectReturns_def idx by (simp only: list.map concat.simps)
  also have "\<dots> = ?at (a # b # rest) 1 @ collectReturns symbol (b # rest)"
    unfolding tail collectReturns_def ..
  finally show ?thesis by (simp add: Let_def)
qed

lemma collectReturns_short: "length h < 2 \<Longrightarrow> collectReturns symbol h = []"
  by (cases h; cases "tl h") (auto simp: collectReturns_def)

lemma collectReturns_bound:
  "length (collectReturns symbol (a # rest))
     \<le> length (filter (\<lambda>trade. Trade.Symbol trade = symbol) rest)
   \<and> set (collectReturns symbol (a # rest)) \<subseteq> range DivRound16"
proof (induction rest arbitrary: a)
  case Nil
  show ?case by (simp add: collectReturns_short)
next
  case (Cons b rest)
  from Cons.IH [of b] show ?case
    by (auto simp: collectReturns_step quot_def)
qed

lemma calculateVolatility_few_trades:
  assumes "length (getTradesForSymbol symbol (TradeHistory pf)) < 2"
  shows "calculateVolatility fsqrt symbol pf = Inr 0"
proof (cases "TradeHistory pf")
  case Nil
  then show ?thesis by (simp add: calculateVolatility_def)
next
  case (Cons a rest)
  let ?returns = "collectReturns symbol (TradeHistory pf)"
  from assms Cons have "length (filter (\<lambda>trade. Trade.Symbol trade = symbol) rest) < 2"
    by (auto simp: getTradesForSymbol_def split: if_splits)
  with collectReturns_bound [of symbol a rest] Cons
  have len: "length ?returns \<le> 1" and rng: "set ?returns \<subseteq> range DivRound16"
    by auto
  show ?thesis
  proof (cases ?returns)
    case Nil
    then show ?thesis by (simp add: calculateVolatility_def)
  next
    case (Cons r rs)
    with len have one: "?returns = [r]" by simp
    with rng obtain x where "r = DivRound16 x" by auto
    then have mean: "quot r 1 = r" by (simp add: quot_def DivRound16_idem)
    show ?thesis
      by (simp add: calculateVolatility_def one mean quot_zero Let_def)
  qed
qed

end
